theory Spec2Isabelle
  imports Main
begin

section \<open>JavaScript values handed to the console methods\<close>

text \<open>
  The arguments of the console methods (\<open>ConsoleMethodArgument\<close> in \<open>types.ts\<close>) are
  strings, numbers, objects and arrays; \<open>undefined\<close>, \<open>null\<close> and booleans are added
  because optional parameters (\<open>table()\<close>, \<open>time()\<close>, \<open>data[1]\<close>) produce them and
  object fields may hold them. Numbers are the integers (whose \<open>String\<close> form is the
  decimal numeral below \<open>10^21\<close>); strings are lists of code units below 256; an object
  is the list of its own enumerable properties in enumeration order, without a
  \<open>toJSON\<close> method.
\<close>

datatype jsval =
    JUndefined
  | JNull
  | JBool bool
  | JNum int
  | JStr string
  | JArr "jsval list"
  | JObj "(string \<times> jsval) list"

text \<open>\<open>typeof v === 'object'\<close>: objects, arrays and \<open>null\<close>.\<close>

fun typeof_object :: "jsval \<Rightarrow> bool" where
  "typeof_object JNull = True"
| "typeof_object (JArr xs) = True"
| "typeof_object (JObj kvs) = True"
| "typeof_object v = False"

text \<open>\<open>typeof v === 'string'\<close>.\<close>

fun typeof_string :: "jsval \<Rightarrow> bool" where
  "typeof_string (JStr s) = True"
| "typeof_string v = False"

text \<open>Truthiness, as \<open>!condition\<close> reads it.\<close>

fun truthy :: "jsval \<Rightarrow> bool" where
  "truthy JUndefined = False"
| "truthy JNull = False"
| "truthy (JBool b) = b"
| "truthy (JNum n) = (n \<noteq> 0)"
| "truthy (JStr s) = (s \<noteq> [])"
| "truthy v = True"

subsection \<open>Strings\<close>

text \<open>\<open>Array.prototype.join\<close> on strings.\<close>

fun join :: "string \<Rightarrow> string list \<Rightarrow> string" where
  "join sep [] = []"
| "join sep [x] = x"
| "join sep (x # y # ys) = x @ sep @ join sep (y # ys)"

text \<open>
  White space as \<open>String.prototype.trim\<close> sees it among code units below 256: tab, line
  feed, vertical tab, form feed, carriage return, space and no-break space.
\<close>

definition is_ws :: "char \<Rightarrow> bool" where
  "is_ws c = (c \<in> set [CHR 0x09, CHR 0x0A, CHR 0x0B, CHR 0x0C, CHR 0x0D, CHR 0x20, CHR 0xA0])"

text \<open>\<open>trim\<close> removes white space at both ends.\<close>

definition trim :: "string \<Rightarrow> string" where
  "trim s = rev (dropWhile is_ws (rev (dropWhile is_ws s)))"

text \<open>Decimal numerals: \<open>String(n)\<close> of an integer.\<close>

definition digit_char :: "nat \<Rightarrow> char" where
  "digit_char d = ''0123456789'' ! d"

function nat_str :: "nat \<Rightarrow> string" where
  "nat_str n = (if n < 10 then [digit_char n] else nat_str (n div 10) @ [digit_char (n mod 10)])"
  by pat_completeness auto
termination
  by (relation "measure (\<lambda>n. n)") auto

definition int_str :: "int \<Rightarrow> string" where
  "int_str i = (if i < 0 then CHR ''-'' # nat_str (nat (- i)) else nat_str (nat i))"

text \<open>
  \<open>String(v)\<close>, which is also what a template literal does. An array joins its elements
  with commas, \<open>undefined\<close> and \<open>null\<close> elements giving the empty string.
\<close>

fun toString :: "jsval \<Rightarrow> string" and toString_elems :: "jsval list \<Rightarrow> string list" where
  "toString JUndefined = ''undefined''"
| "toString JNull = ''null''"
| "toString (JBool b) = (if b then ''true'' else ''false'')"
| "toString (JNum n) = int_str n"
| "toString (JStr s) = s"
| "toString (JArr xs) = join '','' (toString_elems xs)"
| "toString (JObj kvs) = ''[object Object]''"
| "toString_elems [] = []"
| "toString_elems (x # xs) =
     (case x of JUndefined \<Rightarrow> [] | JNull \<Rightarrow> [] | _ \<Rightarrow> toString x) # toString_elems xs"

subsection \<open>\<open>JSON.stringify\<close>\<close>

definition hex_char :: "nat \<Rightarrow> char" where
  "hex_char d = ''0123456789abcdef'' ! d"

text \<open>
  \<open>QuoteJSONString\<close>: the quote and the backslash are escaped, control characters get
  their short escape or \<open>\u00XX\<close>.
\<close>

definition json_escape :: "char \<Rightarrow> string" where
  "json_escape c =
     (if c = CHR 0x22 then [CHR 0x5C, CHR 0x22]
      else if c = CHR 0x5C then [CHR 0x5C, CHR 0x5C]
      else if c = CHR 0x08 then [CHR 0x5C, CHR ''b'']
      else if c = CHR 0x0C then [CHR 0x5C, CHR ''f'']
      else if c = CHR 0x0A then [CHR 0x5C, CHR ''n'']
      else if c = CHR 0x0D then [CHR 0x5C, CHR ''r'']
      else if c = CHR 0x09 then [CHR 0x5C, CHR ''t'']
      else if of_char c < (32::nat)
        then [CHR 0x5C, CHR ''u'', CHR ''0'', CHR ''0'',
              hex_char (of_char c div 16), hex_char (of_char c mod 16)]
      else [c])"

definition json_quote :: "string \<Rightarrow> string" where
  "json_quote s = CHR 0x22 # concat (map json_escape s) @ [CHR 0x22]"

text \<open>
  \<open>JSON.stringify(v)\<close>; \<open>None\<close> is the result \<open>undefined\<close>. An \<open>undefined\<close> array
  element is written \<open>null\<close>, an \<open>undefined\<close> property is left out.
\<close>

fun JSON_stringify :: "jsval \<Rightarrow> string option"
  and json_elems :: "jsval list \<Rightarrow> string list"
  and json_props :: "(string \<times> jsval) list \<Rightarrow> string list" where
  "JSON_stringify JUndefined = None"
| "JSON_stringify JNull = Some ''null''"
| "JSON_stringify (JBool b) = Some (if b then ''true'' else ''false'')"
| "JSON_stringify (JNum n) = Some (int_str n)"
| "JSON_stringify (JStr s) = Some (json_quote s)"
| "JSON_stringify (JArr xs) = Some (''['' @ join '','' (json_elems xs) @ '']'')"
| "JSON_stringify (JObj kvs) = Some (''{'' @ join '','' (json_props kvs) @ ''}'')"
| "json_elems [] = []"
| "json_elems (x # xs) =
     (case JSON_stringify x of None \<Rightarrow> ''null'' | Some t \<Rightarrow> t) # json_elems xs"
| "json_props [] = []"
| "json_props (kv # kvs) =
     (case JSON_stringify (snd kv) of
        None \<Rightarrow> json_props kvs
      | Some t \<Rightarrow> (json_quote (fst kv) @ '':'' @ t) # json_props kvs)"

text \<open>The value \<open>JSON.stringify\<close> returns, as a JavaScript value.\<close>

definition JSON_value :: "jsval \<Rightarrow> jsval" where
  "JSON_value v = (case JSON_stringify v of None \<Rightarrow> JUndefined | Some t \<Rightarrow> JStr t)"

subsection \<open>\<open>String.prototype.includes\<close> and \<open>String.prototype.replace\<close>\<close>

text \<open>
  The first occurrence of a pattern: the text in front of it and the text behind it.
\<close>

fun find_first :: "string \<Rightarrow> string \<Rightarrow> (string \<times> string) option" where
  "find_first pat [] = (if pat = [] then Some ([], []) else None)"
| "find_first pat (c # cs) =
     (if take (length pat) (c # cs) = pat then Some ([], drop (length pat) (c # cs))
      else (case find_first pat cs of
              None \<Rightarrow> None
            | Some (pre, post) \<Rightarrow> Some (c # pre, post)))"

definition str_includes :: "string \<Rightarrow> string \<Rightarrow> bool" where
  "str_includes s pat = (find_first pat s \<noteq> None)"

text \<open>
  \<open>GetSubstitution\<close> for a string pattern (no capture groups): in the replacement text
  \<open>$$\<close> stands for a dollar sign, \<open>$&\<close> for the matched text, \<open>$`\<close> for the text in
  front of the match and \<open>$'\<close> for the text behind it; every other character stands for itself.
\<close>

fun get_substitution :: "string \<Rightarrow> string \<Rightarrow> string \<Rightarrow> string \<Rightarrow> string" where
  "get_substitution matched pre post [] = []"
| "get_substitution matched pre post [c] = [c]"
| "get_substitution matched pre post (c # d # r) =
     (if c = CHR ''$'' \<and> d = CHR ''$'' then CHR ''$'' # get_substitution matched pre post r
      else if c = CHR ''$'' \<and> d = CHR ''&'' then matched @ get_substitution matched pre post r
      else if c = CHR ''$'' \<and> d = CHR 0x60 then pre @ get_substitution matched pre post r
      else if c = CHR ''$'' \<and> d = CHR 0x27 then post @ get_substitution matched pre post r
      else c # get_substitution matched pre post (d # r))"

text \<open>\<open>s.replace(pat, repl)\<close> with a string pattern replaces the first occurrence only.\<close>

definition replace_first :: "string \<Rightarrow> string \<Rightarrow> string \<Rightarrow> string" where
  "replace_first s pat repl =
     (case find_first pat s of
        None \<Rightarrow> s
      | Some (pre, post) \<Rightarrow> pre @ get_substitution pat pre post repl @ post)"

section \<open>The engine state\<close>

text \<open>
  Functions supplied from outside (callback sinks, the methods of a logger) are known by
  an identity; what they return is given by an environment, and every invocation is
  recorded, in order, in the field \<open>calls\<close> of the state.
\<close>

type_synonym fid = nat

type_synonym env = "fid \<Rightarrow> jsval list \<Rightarrow> jsval"

datatype event = Call fid "jsval list"

text \<open>A property of a logger object: a function or any other value.\<close>

datatype member = Func fid | Data jsval

text \<open>
  A logger object: its own enumerable properties, which the spread \<open>{ ...obj }\<close> copies,
  and the properties it inherits, which \<open>obj[prop]\<close> and \<open>prop in obj\<close> also see.
\<close>

record jsobject =
  own :: "(string \<times> member) list"
  inherited :: "(string \<times> member) list"

definition get_prop :: "jsobject \<Rightarrow> string \<Rightarrow> member option" where
  "get_prop obj p =
     (case map_of (own obj) p of Some m \<Rightarrow> Some m | None \<Rightarrow> map_of (inherited obj) p)"

text \<open>Logger objects live in a store; the engine holds their addresses.\<close>

type_synonym addr = nat

type_synonym heap = "addr \<Rightarrow> jsobject"

text \<open>
  \<open>WritableContext\<close>: each channel is a string, a function, or neither (\<open>null\<close>).
\<close>

datatype sink = Accum string | Callback fid | Absent

record writable_context =
  stdout :: sink
  stderr :: sink

text \<open>
  \<open>this.console\<close> is either the object built by \<open>createDefaultConsole(hookMode)\<close> or the
  proxy built by \<open>createProxy(consoleInstance, hookMode)\<close>.
\<close>

datatype surface = DefaultConsole bool | ProxyConsole addr bool

record engine =
  context' :: writable_context
  timers :: "string \<rightharpoonup> int"
  console :: surface
  originalUnpatchedConsoleInstance :: "(string \<times> member) list"
  calls :: "event list"

datatype error = TypeError

definition invoke :: "env \<Rightarrow> fid \<Rightarrow> jsval list \<Rightarrow> engine \<Rightarrow> jsval \<times> engine" where
  "invoke env f args s = (env f args, s\<lparr>calls := calls s @ [Call f args]\<rparr>)"

section \<open>The class \<open>ConsoleMonkeyPatch\<close>\<close>

subsection \<open>\<open>constructor\<close> and \<open>patch\<close>\<close>

definition constructor :: "heap \<Rightarrow> writable_context option \<Rightarrow> addr option \<Rightarrow> bool \<Rightarrow> engine" where
  "constructor h ctx consoleInstance hookMode =
     \<lparr> context' = (case ctx of Some c \<Rightarrow> c | None \<Rightarrow> \<lparr>stdout = Accum [], stderr = Accum []\<rparr>),
       timers = Map.empty,
       console = (case consoleInstance of
                    Some a \<Rightarrow> ProxyConsole a hookMode
                  | None \<Rightarrow> DefaultConsole hookMode),
       originalUnpatchedConsoleInstance =
         (case consoleInstance of Some a \<Rightarrow> own (h a) | None \<Rightarrow> []),
       calls = [] \<rparr>"

definition patch :: "writable_context option \<Rightarrow> addr option \<Rightarrow> bool \<Rightarrow> engine \<Rightarrow> engine" where
  "patch ctx consoleInstance hookMode s =
     (let s1 = (case ctx of Some c \<Rightarrow> s\<lparr>context' := c\<rparr> | None \<Rightarrow> s)
      in case consoleInstance of
           Some a \<Rightarrow> s1\<lparr>console := ProxyConsole a hookMode\<rparr>
         | None \<Rightarrow> s1)"

subsection \<open>\<open>writeToTarget\<close>\<close>

definition is_error_method :: "string \<Rightarrow> bool" where
  "is_error_method method = (method = ''error'' \<or> method = ''warn'')"

definition writeToTarget :: "string \<Rightarrow> string \<Rightarrow> engine \<Rightarrow> engine" where
  "writeToTarget method message s =
     (let target = (if is_error_method method then stderr (context' s) else stdout (context' s))
      in case target of
           Callback f \<Rightarrow> s\<lparr>calls := calls s @ [Call f [JStr message]]\<rparr>
         | Accum t \<Rightarrow>
             (if is_error_method method
              then s\<lparr>context' := (context' s)\<lparr>stderr := Accum (t @ message @ [CHR 0x0A])\<rparr>\<rparr>
              else s\<lparr>context' := (context' s)\<lparr>stdout := Accum (t @ message @ [CHR 0x0A])\<rparr>\<rparr>)
         | Absent \<Rightarrow> s)"

subsection \<open>\<open>logOrSend\<close>\<close>

text \<open>The loop over the arguments, with the message built so far.\<close>

fun build_message :: "jsval list \<Rightarrow> string \<Rightarrow> string" where
  "build_message [] message = message"
| "build_message (arg # args) message =
     build_message args
       (message @ (if typeof_object arg then toString (JSON_value arg) else toString arg @ '' ''))"

definition formattedMessage :: "jsval list \<Rightarrow> string" where
  "formattedMessage args = ''LOG: '' @ trim (build_message args [])"

definition logOrSend :: "env \<Rightarrow> string \<Rightarrow> bool \<Rightarrow> jsval list \<Rightarrow> engine \<Rightarrow> jsval \<times> engine" where
  "logOrSend env method hookMode args s =
     (let s1 = writeToTarget method (formattedMessage args) s
      in if hookMode
         then (case map_of (originalUnpatchedConsoleInstance s1) method of
                 Some (Func originalMethod) \<Rightarrow> invoke env originalMethod args s1
               | Some (Data v) \<Rightarrow> (JUndefined, s1)
               | None \<Rightarrow> (JUndefined, s1))
         else (JUndefined, s1))"

subsection \<open>\<open>createProxy\<close>\<close>

text \<open>
  What the \<open>get\<close> trap of the proxy returns: the target's method itself, the wrapper for
  \<open>assert\<close>, the hook-mode wrapper around the target's method, or the result of
  \<open>Reflect.get\<close> for a property that is no function.
\<close>

datatype property =
    TargetMethod fid
  | AssertWrapper bool
  | HookWrapper fid bool
  | PlainValue jsval

definition createProxy_get :: "heap \<Rightarrow> addr \<Rightarrow> bool \<Rightarrow> string \<Rightarrow> property" where
  "createProxy_get h target hookMode prop =
     (let targetMethod = get_prop (h target) prop
      in if prop = ''assert'' then AssertWrapper hookMode
         else (case targetMethod of
                 Some (Func f) \<Rightarrow> (if \<not> hookMode then TargetMethod f else HookWrapper f hookMode)
               | Some (Data v) \<Rightarrow> PlainValue v
               | None \<Rightarrow> PlainValue JUndefined))"

text \<open>The \<open>i\<close>-th argument of a call, \<open>undefined\<close> when it was not passed.\<close>

definition nth_arg :: "jsval list \<Rightarrow> nat \<Rightarrow> jsval" where
  "nth_arg args i = (if i < length args then args ! i else JUndefined)"

text \<open>The wrapper the proxy returns for \<open>assert\<close>.\<close>

definition proxy_assert :: "env \<Rightarrow> bool \<Rightarrow> jsval \<Rightarrow> jsval list \<Rightarrow> engine \<Rightarrow> jsval \<times> engine" where
  "proxy_assert env hookMode condition data s =
     (if \<not> truthy condition
      then logOrSend env ''log'' hookMode (JStr ''Assertion failed:'' # data) s
      else (JUndefined, s))"

text \<open>The wrapper the proxy returns for a method of the target in hook mode.\<close>

definition hook_wrapper :: "env \<Rightarrow> fid \<Rightarrow> bool \<Rightarrow> jsval list \<Rightarrow> engine \<Rightarrow> jsval \<times> engine" where
  "hook_wrapper env targetMethod hookMode args s =
     (let (output, s1) = invoke env targetMethod args s;
          s2 = (if hookMode then snd (invoke env targetMethod [output] s1) else s1)
      in (output, s2))"

text \<open>Calling what the proxy returned; calling a value that is no function throws.\<close>

definition call_property :: "env \<Rightarrow> property \<Rightarrow> jsval list \<Rightarrow> engine \<Rightarrow> error + jsval \<times> engine" where
  "call_property env p args s =
     (case p of
        TargetMethod f \<Rightarrow> Inr (invoke env f args s)
      | AssertWrapper hookMode \<Rightarrow> Inr (proxy_assert env hookMode (nth_arg args 0) (drop 1 args) s)
      | HookWrapper f hookMode \<Rightarrow> Inr (hook_wrapper env f hookMode args s)
      | PlainValue v \<Rightarrow> Inl TypeError)"

text \<open>The optional call \<open>p?.(args)\<close>: nothing happens when \<open>p\<close> is \<open>undefined\<close> or \<open>null\<close>.\<close>

definition optional_call :: "env \<Rightarrow> property \<Rightarrow> jsval list \<Rightarrow> engine \<Rightarrow> error + jsval \<times> engine" where
  "optional_call env p args s =
     (if p = PlainValue JUndefined \<or> p = PlainValue JNull then Inr (JUndefined, s)
      else call_property env p args s)"

subsection \<open>\<open>createDefaultConsole\<close>\<close>

text \<open>
  \<open>this.console.log?.(...)\<close> and \<open>this.console.error?.(...)\<close>, as the timer methods call
  them: \<open>prop\<close> is \<open>log\<close> or \<open>error\<close>, which the default console defines as
  \<open>this.logOrSend(prop, hookMode)\<close>; a proxy answers through its \<open>get\<close> trap.
\<close>

definition this_console_call ::
  "env \<Rightarrow> heap \<Rightarrow> string \<Rightarrow> jsval list \<Rightarrow> engine \<Rightarrow> error + jsval \<times> engine" where
  "this_console_call env h prop args s =
     (case console s of
        DefaultConsole hookMode \<Rightarrow> Inr (logOrSend env prop hookMode args s)
      | ProxyConsole target hookMode \<Rightarrow>
          optional_call env (createProxy_get h target hookMode prop) args s)"

definition table_op :: "env \<Rightarrow> bool \<Rightarrow> jsval \<Rightarrow> jsval list \<Rightarrow> engine \<Rightarrow> jsval \<times> engine" where
  "table_op env hookMode data optionalParams s =
     (let formattedData = JSON_value data
      in logOrSend env ''table'' hookMode (formattedData # optionalParams) s)"

text \<open>
  The message of a failed assertion. \<open>join\<close> writes an \<open>undefined\<close> element as the empty
  string, as \<open>toString_elems\<close> does.
\<close>

definition assert_message :: "jsval list \<Rightarrow> string" where
  "assert_message data =
     (if typeof_string (nth_arg data 0) \<and> str_includes (toString (nth_arg data 0)) ''%o''
      then (let formatStr = toString (nth_arg data 0);
                objToFormat = nth_arg data 1
            in ''Assertion failed: '' @
               replace_first formatStr ''%o'' (toString (JSON_value objToFormat)))
      else ''Assertion failed: '' @
           join '' '' (toString_elems
             (map (\<lambda>arg. if typeof_object arg then JSON_value arg else arg) data)))"

definition assert_op :: "env \<Rightarrow> bool \<Rightarrow> jsval \<Rightarrow> jsval list \<Rightarrow> engine \<Rightarrow> jsval \<times> engine" where
  "assert_op env hookMode condition data s =
     (if \<not> truthy condition
      then logOrSend env ''log'' hookMode [JStr (assert_message data)] s
      else (JUndefined, s))"

text \<open>The default parameter \<open>label = 'default'\<close>, then \<open>String(label)\<close>.\<close>

definition label_string :: "jsval \<Rightarrow> string" where
  "label_string label = toString (if label = JUndefined then JStr ''default'' else label)"

text \<open>\<open>now\<close> is what \<open>Date.now()\<close> returns during the call.\<close>

definition time_op :: "env \<Rightarrow> heap \<Rightarrow> int \<Rightarrow> jsval \<Rightarrow> engine \<Rightarrow> error + jsval \<times> engine" where
  "time_op env h now label s =
     (let labelStr = label_string label
      in if timers s labelStr \<noteq> None
         then this_console_call env h ''error''
                [JStr (''Timer '' @ [CHR 0x27] @ labelStr @ [CHR 0x27] @ '' already exists'')] s
         else Inr (JUndefined, s\<lparr>timers := (timers s)(labelStr \<mapsto> now)\<rparr>))"

definition timeEnd_op :: "env \<Rightarrow> heap \<Rightarrow> int \<Rightarrow> jsval \<Rightarrow> engine \<Rightarrow> error + jsval \<times> engine" where
  "timeEnd_op env h now label s =
     (let labelStr = label_string label
      in case timers s labelStr of
           Some startTime \<Rightarrow>
             (let duration = now - startTime;
                  s1 = s\<lparr>timers := (timers s)(labelStr := None)\<rparr>
              in this_console_call env h ''log''
                   [JStr (labelStr @ '': '' @ int_str duration @ ''ms'')] s1)
         | None \<Rightarrow>
             this_console_call env h ''error''
               [JStr (''Timer '' @ [CHR 0x27] @ labelStr @ [CHR 0x27] @ '' does not exist'')] s)"

definition clear_sink :: "sink \<Rightarrow> sink" where
  "clear_sink t = (case t of Accum x \<Rightarrow> Accum [] | Callback f \<Rightarrow> Callback f | Absent \<Rightarrow> Absent)"

definition clear_op :: "env \<Rightarrow> engine \<Rightarrow> error + jsval \<times> engine" where
  "clear_op env s =
     (let s1 = s\<lparr>context' := (context' s)\<lparr>stdout := clear_sink (stdout (context' s))\<rparr>\<rparr>;
          s2 = s1\<lparr>context' := (context' s1)\<lparr>stderr := clear_sink (stderr (context' s1))\<rparr>\<rparr>
      in case map_of (originalUnpatchedConsoleInstance s2) ''clear'' of
           Some (Func originalClear) \<Rightarrow> Inr (invoke env originalClear [] s2)
         | Some (Data v) \<Rightarrow>
             (if v = JUndefined \<or> v = JNull then Inr (JUndefined, s2) else Inl TypeError)
         | None \<Rightarrow> Inr (JUndefined, s2))"

text \<open>
  \<open>new Error().stack || 'No stack trace available'\<close>, where \<open>stack\<close> is \<open>None\<close> when the
  platform gives no stack.
\<close>

definition stack_text :: "string option \<Rightarrow> string" where
  "stack_text stack =
     (case stack of
        Some t \<Rightarrow> (if t = [] then ''No stack trace available'' else t)
      | None \<Rightarrow> ''No stack trace available'')"

definition trace_op :: "env \<Rightarrow> bool \<Rightarrow> string option \<Rightarrow> jsval list \<Rightarrow> engine \<Rightarrow> jsval \<times> engine" where
  "trace_op env hookMode stack args s =
     (let traceMessage = stack_text stack
      in logOrSend env ''trace'' hookMode (args @ [JStr traceMessage]) s)"

text \<open>The methods that \<open>createDefaultConsole\<close> defines as \<open>this.logOrSend(name, hookMode)\<close>.\<close>

definition plain_methods :: "string list" where
  "plain_methods = [''log'', ''info'', ''debug'', ''error'', ''warn'', ''group'', ''groupEnd'']"

text \<open>Calling the method \<open>prop\<close> of the object built by \<open>createDefaultConsole(hookMode)\<close>.\<close>

definition default_call ::
  "env \<Rightarrow> heap \<Rightarrow> int \<Rightarrow> string option \<Rightarrow> bool \<Rightarrow> string \<Rightarrow> jsval list \<Rightarrow> engine
     \<Rightarrow> error + jsval \<times> engine" where
  "default_call env h now stack hookMode prop args s =
     (if List.member plain_methods prop then Inr (logOrSend env prop hookMode args s)
      else if prop = ''table'' then Inr (table_op env hookMode (nth_arg args 0) (drop 1 args) s)
      else if prop = ''assert'' then Inr (assert_op env hookMode (nth_arg args 0) (drop 1 args) s)
      else if prop = ''time'' then time_op env h now (nth_arg args 0) s
      else if prop = ''timeEnd'' then timeEnd_op env h now (nth_arg args 0) s
      else if prop = ''clear'' then clear_op env s
      else if prop = ''trace'' then Inr (trace_op env hookMode stack args s)
      else Inl TypeError)"

text \<open>Calling \<open>instance.console[prop](...args)\<close>.\<close>

definition console_call ::
  "env \<Rightarrow> heap \<Rightarrow> int \<Rightarrow> string option \<Rightarrow> string \<Rightarrow> jsval list \<Rightarrow> engine
     \<Rightarrow> error + jsval \<times> engine" where
  "console_call env h now stack prop args s =
     (case console s of
        DefaultConsole hookMode \<Rightarrow> default_call env h now stack hookMode prop args s
      | ProxyConsole target hookMode \<Rightarrow>
          call_property env (createProxy_get h target hookMode prop) args s)"

subsection \<open>\<open>isConsoleInstance\<close>\<close>

text \<open>
  The argument is any value: \<open>undefined\<close>, \<open>null\<close>, a boolean, a number, a string, a
  function (whose \<open>typeof\<close> is \<open>'function'\<close>) or an object; of functions and objects
  only the properties matter here.
\<close>

datatype unknown =
    UUndefined
  | UNull
  | UBool bool
  | UNum int
  | UStr string
  | UFunction jsobject
  | UObject jsobject



section \<open>The specification's wording\<close>

text \<open>
  The formatting algorithm as the specification words it: every argument in its string
  form (JSON for an object-typed argument, the default string otherwise) followed by a
  single space, trailing white space trimmed, the marker in front.
\<close>

definition trim_trailing :: "string \<Rightarrow> string" where
  "trim_trailing s = rev (dropWhile is_ws (rev s))"

definition stringified :: "jsval \<Rightarrow> string" where
  "stringified arg = (if typeof_object arg then toString (JSON_value arg) else toString arg)"

definition spec_formattedMessage :: "jsval list \<Rightarrow> string" where
  "spec_formattedMessage args =
     ''LOG: '' @ trim_trailing (concat (map (\<lambda>arg. stringified arg @ '' '') args))"



section \<open>Concrete inputs\<close>

text \<open>
  A store in which no object has any property, an environment in which every external
  function returns \<open>undefined\<close>, and a store whose objects are loggers with \<open>log\<close>,
  \<open>error\<close> and \<open>assert\<close> methods of their own and an inherited \<open>info\<close>.
\<close>

definition bare_heap :: heap where
  "bare_heap = (\<lambda>a. \<lparr>own = [], inherited = []\<rparr>)"

definition silent :: env where
  "silent = (\<lambda>f args. JUndefined)"

definition logger_heap :: heap where
  "logger_heap =
     (\<lambda>a. \<lparr>own = [(''log'', Func 1), (''error'', Func 2), (''assert'', Func 3)],
           inherited = [(''info'', Func 4)]\<rparr>)"

text \<open>An environment in which every external function returns the string \<open>done\<close>.\<close>

definition answering :: env where
  "answering = (\<lambda>f args. JStr ''done'')"


text \<open>
  A store with two loggers: the one at address 0 has \<open>log\<close> and \<open>error\<close> methods 1 and
  2 of its own, every other one has \<open>log\<close> and \<open>error\<close> methods 5 and 6 of its own.
\<close>

definition two_loggers :: heap where
  "two_loggers =
     (\<lambda>a. if a = 0 then \<lparr>own = [(''log'', Func 1), (''error'', Func 2)], inherited = []\<rparr>
          else \<lparr>own = [(''log'', Func 5), (''error'', Func 6)], inherited = []\<rparr>)"

section \<open>Formatting\<close>

lemma build_message_concat:
  "build_message args message =
     message @ concat (map (\<lambda>arg. if typeof_object arg then toString (JSON_value arg)
                                  else toString arg @ '' '') args)"
  by (induction args arbitrary: message) simp_all

lemma is_ws_space: "is_ws CHR '' ''"
  by (simp add: is_ws_def)

lemma trim_append_space: "trim (xs @ '' '') = trim xs"
proof (cases "\<forall>x\<in>set xs. is_ws x")
  case True
  then have e: "dropWhile is_ws xs = []" by simp
  show ?thesis unfolding trim_def dropWhile_append e using True by (simp add: is_ws_space)
next
  case False
  then show ?thesis by (auto simp add: trim_def is_ws_space dropWhile_append)
qed

lemma concat_spaced_join:
  "xs \<noteq> [] \<Longrightarrow> concat (map (\<lambda>x. x @ '' '') xs) = join '' '' xs @ '' ''"
  by (induction xs rule: induct_list012) simp_all

lemma trim_concat_spaced: "trim (concat (map (\<lambda>x. x @ '' '') xs)) = trim (join '' '' xs)"
proof (cases xs)
  case Nil
  then show ?thesis by simp
next
  case (Cons a list)
  then have "xs \<noteq> []" by simp
  from concat_spaced_join[OF this] show ?thesis by (simp only: trim_append_space)
qed

lemma trim_no_trailing_ws: "trim s \<noteq> [] \<Longrightarrow> \<not> is_ws (last (trim s))"
  unfolding trim_def
  by (metis hd_dropWhile last_rev rev_is_Nil_conv)

lemma trim_keeps_prefix:
  assumes "p \<noteq> []" "\<not> is_ws (hd p)" "\<not> is_ws (last p)"
  shows "trim (p @ x) = p @ trim_trailing x"
proof -
  from assms have a: "dropWhile is_ws (p @ x) = p @ x" by (cases p) simp_all
  have b: "dropWhile is_ws (rev p) = rev p" using assms by (cases p rule: rev_cases) simp_all
  show ?thesis unfolding trim_def trim_trailing_def a by (simp add: dropWhile_append b)
qed

lemma pieces_no_objects:
  "list_all (\<lambda>a. \<not> typeof_object a) args \<Longrightarrow>
   map (\<lambda>arg. if typeof_object arg then toString (JSON_value arg) else toString arg @ '' '') args
     = map (\<lambda>arg. stringified arg @ '' '') args"
  by (induction args) (simp_all add: stringified_def)

lemma formattedMessage_last_object:
  assumes "list_all (\<lambda>a. \<not> typeof_object a) (butlast args)"
  shows "formattedMessage args = ''LOG: '' @ trim (concat (map (\<lambda>a. stringified a @ '' '') args))"
proof (cases args rule: rev_cases)
  case Nil
  then show ?thesis by (simp add: formattedMessage_def)
next
  case (snoc ys y)
  define piece where
    "piece = (\<lambda>arg. if typeof_object arg then toString (JSON_value arg) else toString arg @ '' '')"
  define spaced where "spaced = (\<lambda>arg. stringified arg @ '' '')"
  from snoc assms have ys: "list_all (\<lambda>a. \<not> typeof_object a) ys" by simp
  have m: "map piece ys = map spaced ys"
    using pieces_no_objects[OF ys] by (simp only: piece_def spaced_def)
  have b: "build_message args [] = concat (map spaced ys) @ piece y"
    by (simp add: build_message_concat snoc m[symmetric] piece_def)
  have c: "concat (map spaced args) = concat (map spaced ys) @ stringified y @ '' ''"
    by (simp add: snoc spaced_def)
  have "trim (concat (map spaced ys) @ piece y) = trim (concat (map spaced ys) @ stringified y @ '' '')"
  proof (cases "typeof_object y")
    case True
    then have "piece y = stringified y" by (simp add: piece_def stringified_def)
    then show ?thesis using trim_append_space[of "concat (map spaced ys) @ stringified y"] by simp
  next
    case False
    then have "piece y = stringified y @ '' ''" by (simp add: piece_def stringified_def)
    then show ?thesis by simp
  qed
  then have "trim (build_message args []) = trim (concat (map spaced args))"
    by (simp only: b c)
  then show ?thesis by (simp add: formattedMessage_def spaced_def)
qed

lemma formattedMessage_primitives:
  assumes "list_all (\<lambda>a. \<not> typeof_object a) args"
  shows "formattedMessage args = ''LOG: '' @ trim (join '' '' (map toString args))"
proof -
  have "list_all (\<lambda>a. \<not> typeof_object a) (butlast args)"
    using assms by (simp add: list_all_iff in_set_butlastD)
  then have a: "formattedMessage args = ''LOG: '' @ trim (concat (map (\<lambda>a. stringified a @ '' '') args))"
    by (rule formattedMessage_last_object)
  have "map (\<lambda>a. stringified a @ '' '') args = map (\<lambda>x. x @ '' '') (map toString args)"
    using assms by (induction args) (simp_all add: stringified_def)
  then have "trim (concat (map (\<lambda>a. stringified a @ '' '') args)) = trim (join '' '' (map toString args))"
    by (simp only: trim_concat_spaced)
  with a show ?thesis by simp
qed

text \<open>
  C1, as the code has it. \<open>logOrSend\<close> appends the space only in the branch of the
  arguments that are not object-typed, and \<open>trim\<close> strips both ends. So: when no
  object-typed argument stands before the last position, the line is the marker
  \<open>LOG: \<close> followed by the concatenation of every argument's string form and a single
  space, trimmed at both ends; and when no argument is object-typed at all, the line is
  the marker followed by the space-joined default string forms, trimmed at both ends.
\<close>

theorem formattedMessage_spaced:
  "(list_all (\<lambda>a. \<not> typeof_object a) (butlast args) \<longrightarrow>
      formattedMessage args = ''LOG: '' @ trim (concat (map (\<lambda>a. stringified a @ '' '') args)))
   \<and> (list_all (\<lambda>a. \<not> typeof_object a) args \<longrightarrow>
      formattedMessage args = ''LOG: '' @ trim (join '' '' (map toString args)))"
  using formattedMessage_last_object formattedMessage_primitives by blast

theorem formattedMessage_spaced_witness:
  "list_all (\<lambda>a. \<not> typeof_object a) (butlast [JStr ''a'', JObj [(''k'', JBool True)]])
   \<and> formattedMessage [JStr ''a'', JObj [(''k'', JBool True)]] = ''LOG: a {\"k\":true}''
   \<and> list_all (\<lambda>a. \<not> typeof_object a) [JStr '' a'', JBool False]
   \<and> formattedMessage [JStr '' a'', JBool False] = ''LOG: a false''"
  using formattedMessage_spaced[of "[JStr ''a'', JObj [(''k'', JBool True)]]"]
        formattedMessage_spaced[of "[JStr '' a'', JBool False]"]
  by (simp add: stringified_def JSON_value_def json_quote_def json_escape_def trim_def is_ws_def)

text \<open>
  C1 as stated fails twice: \<open>log({}, 'x')\<close> gives \<open>LOG: {}x\<close>, with no space after the
  object, and \<open>log(' x')\<close> gives \<open>LOG: x\<close>, the leading space trimmed too.
\<close>

theorem formattedMessage_counterexample:
  "formattedMessage [JObj [], JStr ''x''] \<noteq> spec_formattedMessage [JObj [], JStr ''x'']
   \<and> formattedMessage [JStr '' x''] \<noteq> spec_formattedMessage [JStr '' x'']"
  by (simp add: formattedMessage_def spec_formattedMessage_def stringified_def JSON_value_def
        trim_def trim_trailing_def is_ws_def)

section \<open>Construction without arguments\<close>

lemma formattedMessage_hi: "formattedMessage [JStr ''hi''] = ''LOG: hi''"
  by (simp add: formattedMessage_def trim_def is_ws_def)

text \<open>
  C2. Constructed with no context and no logger (whatever the hook flag), the engine has
  a context whose two channels are the empty string, and \<open>console.log('hi')\<close> then
  returns \<open>undefined\<close>, invokes nothing, and leaves \<open>stdout\<close> equal to \<open>LOG: hi\<close>
  followed by a newline, \<open>stderr\<close> still empty.
\<close>

theorem default_context_log_hi:
  "context' (constructor h None None hookMode) = \<lparr>stdout = Accum [], stderr = Accum []\<rparr>
   \<and> console_call env h now stack ''log'' [JStr ''hi''] (constructor h None None hookMode)
       = Inr (JUndefined,
              (constructor h None None hookMode)
                \<lparr>context' := \<lparr>stdout = Accum (''LOG: hi'' @ [CHR 0x0A]), stderr = Accum []\<rparr>\<rparr>)"
  by (simp add: constructor_def console_call_def default_call_def plain_methods_def
        logOrSend_def writeToTarget_def is_error_method_def formattedMessage_hi Let_def)

section \<open>Writing to a sink\<close>

lemma writeToTarget_frame:
  "timers (writeToTarget method message s) = timers s"
  "console (writeToTarget method message s) = console s"
  "originalUnpatchedConsoleInstance (writeToTarget method message s) = originalUnpatchedConsoleInstance s"
  by (simp_all add: writeToTarget_def Let_def split: sink.splits)


lemma logOrSend_console: "console (snd (logOrSend env method hookMode args s)) = console s"
  by (simp add: logOrSend_def invoke_def Let_def writeToTarget_frame
        split: option.splits member.splits)

lemma logOrSend_snapshot:
  "originalUnpatchedConsoleInstance (snd (logOrSend env method hookMode args s))
     = originalUnpatchedConsoleInstance s"
  by (simp add: logOrSend_def invoke_def Let_def writeToTarget_frame
        split: option.splits member.splits)

lemma logOrSend_snapshot_pair:
  "logOrSend env method hookMode args s = (r, s') \<Longrightarrow>
   originalUnpatchedConsoleInstance s' = originalUnpatchedConsoleInstance s"
  using logOrSend_snapshot[of env "method" "hookMode" args s] by simp

lemma logOrSend_write:
  "\<exists>forwarded. snd (logOrSend env method hookMode args s)
       = (writeToTarget method (formattedMessage args) s)
           \<lparr>calls := calls (writeToTarget method (formattedMessage args) s) @ forwarded\<rparr>
     \<and> (\<not> hookMode \<longrightarrow> forwarded = [])"
proof -
  define w where "w = writeToTarget method (formattedMessage args) s"
  have e: "w = w\<lparr>calls := calls w @ []\<rparr>" by simp
  show ?thesis
  proof (cases "hookMode")
    case False
    then have "snd (logOrSend env method hookMode args s) = w"
      by (simp add: logOrSend_def w_def Let_def)
    with e False show ?thesis unfolding w_def[symmetric] by metis
  next
    case True
    show ?thesis
    proof (cases "map_of (originalUnpatchedConsoleInstance w) method")
      case None
      with True have "snd (logOrSend env method hookMode args s) = w"
        by (simp add: logOrSend_def w_def Let_def)
      with e True show ?thesis unfolding w_def[symmetric] by metis
    next
      case (Some m)
      show ?thesis
      proof (cases m)
        case (Func g)
        with Some True have "snd (logOrSend env method hookMode args s) = w\<lparr>calls := calls w @ [Call g args]\<rparr>"
          by (simp add: logOrSend_def w_def Let_def invoke_def)
        with True show ?thesis unfolding w_def[symmetric] by metis
      next
        case (Data v)
        with Some True have "snd (logOrSend env method hookMode args s) = w"
          by (simp add: logOrSend_def w_def Let_def)
        with e True show ?thesis unfolding w_def[symmetric] by metis
      qed
    qed
  qed
qed

lemma formattedMessage_last: "last (formattedMessage args) \<noteq> CHR 0x0A"
proof (cases "trim (build_message args []) = []")
  case True
  then show ?thesis by (simp add: formattedMessage_def)
next
  case False
  from trim_no_trailing_ws[OF this] have "last (trim (build_message args [])) \<noteq> CHR 0x0A"
    by (auto simp: is_ws_def)
  with False show ?thesis by (simp add: formattedMessage_def)
qed

text \<open>
  C10. Every write goes through \<open>logOrSend\<close>, whose state afterwards is that of
  \<open>writeToTarget\<close> on the line \<open>formattedMessage args\<close>, with at most the hook-mode
  call of the backing method appended to the invocations (none when hook mode is off).
  The line starts with \<open>LOG: \<close> and does not end in a newline. If the sink of the
  method's channel is a function, the write invokes it once with the line itself and
  changes nothing else; if it is a string, the line and one newline are appended to it
  and nothing else changes; if it is neither, the write changes nothing, and with hook
  mode off the whole call changes nothing. On a synthesized console the methods \<open>log\<close>,
  \<open>info\<close>, \<open>debug\<close>, \<open>error\<close>, \<open>warn\<close>, \<open>group\<close> and \<open>groupEnd\<close> are this call.
\<close>

theorem sink_write_asymmetry:
  "(\<exists>forwarded. snd (logOrSend env method hookMode args s)
       = (writeToTarget method (formattedMessage args) s)
           \<lparr>calls := calls (writeToTarget method (formattedMessage args) s) @ forwarded\<rparr>
     \<and> (\<not> hookMode \<longrightarrow> forwarded = []))
   \<and> take 5 (formattedMessage args) = ''LOG: ''
   \<and> last (formattedMessage args) \<noteq> CHR 0x0A
   \<and> ((if is_error_method method then stderr (context' s) else stdout (context' s)) = Callback f \<longrightarrow>
        writeToTarget method (formattedMessage args) s
          = s\<lparr>calls := calls s @ [Call f [JStr (formattedMessage args)]]\<rparr>)
   \<and> ((if is_error_method method then stderr (context' s) else stdout (context' s)) = Accum t \<longrightarrow>
        writeToTarget method (formattedMessage args) s
          = (if is_error_method method
             then s\<lparr>context' := (context' s)\<lparr>stderr := Accum (t @ formattedMessage args @ [CHR 0x0A])\<rparr>\<rparr>
             else s\<lparr>context' := (context' s)\<lparr>stdout := Accum (t @ formattedMessage args @ [CHR 0x0A])\<rparr>\<rparr>))
   \<and> ((if is_error_method method then stderr (context' s) else stdout (context' s)) = Absent \<longrightarrow>
        writeToTarget method (formattedMessage args) s = s
        \<and> snd (logOrSend env method False args s) = s)
   \<and> (console s = DefaultConsole hookMode \<and> List.member plain_methods method \<longrightarrow>
        console_call env h now stack method args s = Inr (logOrSend env method hookMode args s))"
proof -
  have "take 5 (formattedMessage args) = ''LOG: ''" by (simp add: formattedMessage_def)
  moreover have "(if is_error_method method then stderr (context' s) else stdout (context' s)) = Absent \<longrightarrow>
        snd (logOrSend env method False args s) = s"
    by (simp add: logOrSend_def writeToTarget_def Let_def)
  moreover have "console s = DefaultConsole hookMode \<and> List.member plain_methods method \<longrightarrow>
        console_call env h now stack method args s = Inr (logOrSend env method hookMode args s)"
    by (simp add: console_call_def default_call_def)
  ultimately show ?thesis
    using logOrSend_write[of env "method" "hookMode" args s] formattedMessage_last[of args]
    by (simp add: writeToTarget_def Let_def)
qed

theorem sink_write_asymmetry_witness:
  "(if is_error_method ''log''
    then stderr (context' (constructor bare_heap (Some \<lparr>stdout = Callback 7, stderr = Accum ''e''\<rparr>) None False))
    else stdout (context' (constructor bare_heap (Some \<lparr>stdout = Callback 7, stderr = Accum ''e''\<rparr>) None False)))
     = Callback 7
   \<and> writeToTarget ''log'' (formattedMessage [JStr ''hi''])
        (constructor bare_heap (Some \<lparr>stdout = Callback 7, stderr = Accum ''e''\<rparr>) None False)
     = (constructor bare_heap (Some \<lparr>stdout = Callback 7, stderr = Accum ''e''\<rparr>) None False)
         \<lparr>calls := [Call 7 [JStr ''LOG: hi'']]\<rparr>
   \<and> (if is_error_method ''warn''
      then stderr (context' (constructor bare_heap (Some \<lparr>stdout = Callback 7, stderr = Accum ''e''\<rparr>) None False))
      else stdout (context' (constructor bare_heap (Some \<lparr>stdout = Callback 7, stderr = Accum ''e''\<rparr>) None False)))
     = Accum ''e''
   \<and> writeToTarget ''warn'' (formattedMessage [JStr ''hi''])
        (constructor bare_heap (Some \<lparr>stdout = Callback 7, stderr = Accum ''e''\<rparr>) None False)
     = (constructor bare_heap (Some \<lparr>stdout = Callback 7, stderr = Accum ''e''\<rparr>) None False)
         \<lparr>context' := \<lparr>stdout = Callback 7, stderr = Accum (''eLOG: hi'' @ [CHR 0x0A])\<rparr>\<rparr>
   \<and> (if is_error_method ''info''
      then stderr (context' (constructor bare_heap (Some \<lparr>stdout = Absent, stderr = Accum ''e''\<rparr>) None False))
      else stdout (context' (constructor bare_heap (Some \<lparr>stdout = Absent, stderr = Accum ''e''\<rparr>) None False)))
     = Absent
   \<and> snd (logOrSend silent ''info'' False [JStr ''hi'']
        (constructor bare_heap (Some \<lparr>stdout = Absent, stderr = Accum ''e''\<rparr>) None False))
     = constructor bare_heap (Some \<lparr>stdout = Absent, stderr = Accum ''e''\<rparr>) None False
   \<and> console (constructor bare_heap (Some \<lparr>stdout = Absent, stderr = Accum ''e''\<rparr>) None False)
       = DefaultConsole False
   \<and> List.member plain_methods ''info''
   \<and> console_call silent bare_heap 0 None ''info'' [JStr ''hi'']
        (constructor bare_heap (Some \<lparr>stdout = Absent, stderr = Accum ''e''\<rparr>) None False)
     = Inr (JUndefined, constructor bare_heap (Some \<lparr>stdout = Absent, stderr = Accum ''e''\<rparr>) None False)"
  using sink_write_asymmetry[of silent "''log''" False "[JStr ''hi'']"
          "constructor bare_heap (Some \<lparr>stdout = Callback 7, stderr = Accum ''e''\<rparr>) None False" 7 "''e''"]
        sink_write_asymmetry[of silent "''warn''" False "[JStr ''hi'']"
          "constructor bare_heap (Some \<lparr>stdout = Callback 7, stderr = Accum ''e''\<rparr>) None False" 7 "''e''"]
        sink_write_asymmetry[of silent "''info''" False "[JStr ''hi'']"
          "constructor bare_heap (Some \<lparr>stdout = Absent, stderr = Accum ''e''\<rparr>) None False" 7 "''e''"
          bare_heap 0 None]
  by (simp add: is_error_method_def constructor_def formattedMessage_hi plain_methods_def
        logOrSend_def writeToTarget_def Let_def)

section \<open>The proxy around an existing logger\<close>

lemma assertion_prefix:
  "formattedMessage (JStr ''Assertion failed:'' # data)
     = ''LOG: Assertion failed:'' @ trim_trailing (CHR '' '' # build_message data [])"
proof -
  have "build_message (JStr ''Assertion failed:'' # data) []
          = ''Assertion failed:'' @ (CHR '' '' # build_message data [])"
    by (simp add: build_message_concat)
  moreover have "trim (''Assertion failed:'' @ (CHR '' '' # build_message data []))
          = ''Assertion failed:'' @ trim_trailing (CHR '' '' # build_message data [])"
    by (rule trim_keeps_prefix) (simp_all add: is_ws_def)
  ultimately show ?thesis by (simp add: formattedMessage_def)
qed

text \<open>
  C3. With hook mode off the proxy returns, for every property other than \<open>assert\<close>
  whose value in the target is a function, that very function. For \<open>assert\<close> it
  returns its own wrapper whatever the hook flag and whatever the target holds: called
  with a truthy condition the wrapper does nothing; called with a falsy one it is
  \<open>logOrSend('log', hookMode)\<close> applied to \<open>'Assertion failed:'\<close> and the data, so the
  line starts with \<open>LOG: Assertion failed:\<close> and goes to the standard channel; and the
  outcome is the same for every content of the store, so the target's own \<open>assert\<close>
  plays no part in it.
\<close>

theorem proxy_passthrough_and_assert:
  "(prop \<noteq> ''assert'' \<and> get_prop (h target) prop = Some (Func f) \<longrightarrow>
      createProxy_get h target False prop = TargetMethod f)
   \<and> createProxy_get h target hookMode ''assert'' = AssertWrapper hookMode
   \<and> (console s = ProxyConsole target hookMode \<longrightarrow>
        console_call env h now stack ''assert'' args s
          = Inr (if truthy (nth_arg args 0) then (JUndefined, s)
                 else logOrSend env ''log'' hookMode (JStr ''Assertion failed:'' # drop 1 args) s)
        \<and> console_call env h' now stack ''assert'' args s
            = console_call env h now stack ''assert'' args s)
   \<and> formattedMessage (JStr ''Assertion failed:'' # data)
        = ''LOG: Assertion failed:'' @ trim_trailing (CHR '' '' # build_message data [])
   \<and> \<not> is_error_method ''log''"
  using assertion_prefix[of data]
  by (simp add: console_call_def createProxy_get_def call_property_def proxy_assert_def
        is_error_method_def Let_def)

theorem proxy_passthrough_and_assert_witness:
  "''log'' \<noteq> ''assert'' \<and> get_prop (logger_heap 0) ''log'' = Some (Func 1)
   \<and> createProxy_get logger_heap 0 False ''log'' = TargetMethod 1
   \<and> console (constructor logger_heap None (Some 0) True) = ProxyConsole 0 True
   \<and> console_call answering logger_heap 0 None ''assert'' [JBool False, JStr ''odd'']
        (constructor logger_heap None (Some 0) True)
      = Inr (JStr ''done'',
             (constructor logger_heap None (Some 0) True)
               \<lparr>context' := \<lparr>stdout = Accum (''LOG: Assertion failed: odd'' @ [CHR 0x0A]), stderr = Accum []\<rparr>,
                calls := [Call 1 [JStr ''Assertion failed:'', JStr ''odd'']]\<rparr>)
   \<and> console_call answering bare_heap 0 None ''assert'' [JBool False, JStr ''odd'']
        (constructor logger_heap None (Some 0) True)
      = console_call answering logger_heap 0 None ''assert'' [JBool False, JStr ''odd'']
        (constructor logger_heap None (Some 0) True)"
  using proxy_passthrough_and_assert[of "''log''" logger_heap 0 1 True
          "constructor logger_heap None (Some 0) True" answering 0 None
          "[JBool False, JStr ''odd'']" bare_heap "[JStr ''odd'']"]
  by (simp add: logger_heap_def get_prop_def constructor_def nth_arg_def logOrSend_def
        writeToTarget_def is_error_method_def invoke_def answering_def Let_def
        formattedMessage_def trim_def is_ws_def)

text \<open>
  C5. On a proxy in hook mode, calling a property other than \<open>assert\<close> whose value in
  the target is a function invokes that function with the caller's arguments, then
  invokes it once more with the first result as its only argument, and returns the
  first result; nothing else changes.
\<close>

theorem hook_wrapper_calls_twice:
  assumes "console s = ProxyConsole target True" "prop \<noteq> ''assert''"
    "get_prop (h target) prop = Some (Func f)"
  shows "console_call env h now stack prop args s
           = Inr (env f args, s\<lparr>calls := calls s @ [Call f args, Call f [env f args]]\<rparr>)"
  using assms
  by (simp add: console_call_def createProxy_get_def call_property_def hook_wrapper_def
        invoke_def Let_def)

theorem hook_wrapper_calls_twice_witness:
  "console (constructor logger_heap None (Some 0) True) = ProxyConsole 0 True
   \<and> ''info'' \<noteq> ''assert''
   \<and> get_prop (logger_heap 0) ''info'' = Some (Func 4)
   \<and> console_call answering logger_heap 0 None ''info'' [JStr ''hi'']
        (constructor logger_heap None (Some 0) True)
      = Inr (JStr ''done'',
             (constructor logger_heap None (Some 0) True)
               \<lparr>calls := [Call 4 [JStr ''hi''], Call 4 [JStr ''done'']]\<rparr>)"
  using hook_wrapper_calls_twice[of "constructor logger_heap None (Some 0) True" 0 "''info''"
          logger_heap 4 answering 0 None "[JStr ''hi'']"]
  by (simp add: logger_heap_def get_prop_def constructor_def answering_def)

section \<open>Timers\<close>








section \<open>Reconfiguration\<close>

lemma call_property_snapshot:
  "call_property env p args s = Inr (r, s') \<Longrightarrow>
   originalUnpatchedConsoleInstance s' = originalUnpatchedConsoleInstance s"
  by (auto simp: call_property_def proxy_assert_def hook_wrapper_def invoke_def Let_def
        dest: logOrSend_snapshot_pair
        split: property.splits if_splits prod.splits)

lemma optional_call_snapshot:
  "optional_call env p args s = Inr (r, s') \<Longrightarrow>
   originalUnpatchedConsoleInstance s' = originalUnpatchedConsoleInstance s"
  by (auto simp: optional_call_def dest: call_property_snapshot split: if_splits)

lemma this_console_call_snapshot:
  "this_console_call env h prop args s = Inr (r, s') \<Longrightarrow>
   originalUnpatchedConsoleInstance s' = originalUnpatchedConsoleInstance s"
  by (auto simp: this_console_call_def dest: optional_call_snapshot logOrSend_snapshot_pair
        split: surface.splits)

lemma time_op_snapshot:
  "time_op env h now label s = Inr (r, s') \<Longrightarrow>
   originalUnpatchedConsoleInstance s' = originalUnpatchedConsoleInstance s"
  by (auto simp: time_op_def Let_def dest: this_console_call_snapshot split: if_splits)

lemma timeEnd_op_snapshot:
  "timeEnd_op env h now label s = Inr (r, s') \<Longrightarrow>
   originalUnpatchedConsoleInstance s' = originalUnpatchedConsoleInstance s"
  by (auto simp: timeEnd_op_def Let_def dest!: this_console_call_snapshot split: option.splits)

lemma clear_op_snapshot:
  "clear_op env s = Inr (r, s') \<Longrightarrow>
   originalUnpatchedConsoleInstance s' = originalUnpatchedConsoleInstance s"
  by (auto simp: clear_op_def Let_def invoke_def split: option.splits member.splits if_splits)

lemma default_call_snapshot:
  "default_call env h now stack hookMode prop args s = Inr (r, s') \<Longrightarrow>
   originalUnpatchedConsoleInstance s' = originalUnpatchedConsoleInstance s"
  by (auto simp: default_call_def table_op_def assert_op_def trace_op_def Let_def
        dest: time_op_snapshot timeEnd_op_snapshot clear_op_snapshot logOrSend_snapshot_pair
        split: if_splits)

lemma console_call_snapshot:
  "console_call env h now stack prop args s = Inr (r, s') \<Longrightarrow>
   originalUnpatchedConsoleInstance s' = originalUnpatchedConsoleInstance s"
  by (auto simp: console_call_def dest: default_call_snapshot call_property_snapshot
        split: surface.splits)

text \<open>
  What \<open>patch\<close> leaves alone. It never touches the timers, the snapshot of the original
  methods or the recorded invocations. With a context only it replaces the context and
  nothing else; with nothing it changes nothing; a context given becomes the context, a
  context omitted leaves it; a logger given makes the console the proxy around it, a
  logger omitted leaves the console. The snapshot is the logger's own properties as the
  store held them at construction, and no call on the console changes it, whatever the
  store holds by then.
\<close>

lemma patch_frame:
  "timers (patch ctx inst hookMode s) = timers s
   \<and> originalUnpatchedConsoleInstance (patch ctx inst hookMode s) = originalUnpatchedConsoleInstance s
   \<and> calls (patch ctx inst hookMode s) = calls s
   \<and> patch (Some c) None hookMode s = s\<lparr>context' := c\<rparr>
   \<and> patch None None hookMode s = s
   \<and> context' (patch (Some c) inst hookMode s) = c
   \<and> context' (patch None inst hookMode s) = context' s
   \<and> console (patch ctx (Some a) hookMode s) = ProxyConsole a hookMode
   \<and> console (patch ctx None hookMode s) = console s
   \<and> originalUnpatchedConsoleInstance (constructor h0 ctx0 (Some a) hookMode0) = own (h0 a)
   \<and> (console_call env h now stack prop args s = Inr (r, s') \<longrightarrow>
        originalUnpatchedConsoleInstance s' = originalUnpatchedConsoleInstance s)"
  using console_call_snapshot[of env h now stack "prop" args s r s']
  by (simp add: patch_def constructor_def Let_def split: option.splits)


text \<open>
  C8 at \<open>new ConsoleMonkeyPatch(undefined, A, true)\<close> followed by
  \<open>patch(undefined, B, true)\<close>: the console becomes the proxy around \<open>B\<close>, but the
  snapshot is still the copy of \<open>A\<close>'s own methods, which are not those of \<open>B\<close>, and a
  failed \<open>assert\<close> on the new console forwards to the \<open>log\<close> of \<open>A\<close>. And a logger whose
  \<open>info\<close> is inherited has no \<open>info\<close> in the snapshot taken by the constructor.
\<close>

theorem patch_keeps_first_snapshot:
  "console (patch None (Some 1) True (constructor two_loggers None (Some 0) True))
     = ProxyConsole 1 True
   \<and> originalUnpatchedConsoleInstance
        (patch None (Some 1) True (constructor two_loggers None (Some 0) True))
     = own (two_loggers 0)
   \<and> own (two_loggers 0) \<noteq> own (two_loggers 1)
   \<and> console_call answering two_loggers 0 None ''assert'' [JBool False, JStr ''x'']
        (patch None (Some 1) True (constructor two_loggers None (Some 0) True))
     = Inr (JStr ''done'',
            (patch None (Some 1) True (constructor two_loggers None (Some 0) True))
              \<lparr>context' := \<lparr>stdout = Accum (''LOG: Assertion failed: x'' @ [CHR 0x0A]),
                            stderr = Accum []\<rparr>,
               calls := [Call 1 [JStr ''Assertion failed:'', JStr ''x'']]\<rparr>)
   \<and> get_prop (logger_heap 0) ''info'' = Some (Func 4)
   \<and> map_of (originalUnpatchedConsoleInstance (constructor logger_heap None (Some 0) True)) ''info''
     = None"
  by (simp add: patch_def constructor_def two_loggers_def logger_heap_def get_prop_def
        console_call_def createProxy_get_def call_property_def proxy_assert_def nth_arg_def
        logOrSend_def writeToTarget_def is_error_method_def invoke_def answering_def Let_def
        formattedMessage_def trim_def is_ws_def)

section \<open>The synthesized console has no backing logger\<close>

text \<open>
  The constructor copies the methods of a logger only when it wraps that logger in a
  proxy, \<open>patch\<close> only ever installs a proxy and never assigns the snapshot, and no call
  changes the console or the snapshot. So whenever the engine's console is the
  synthesized one the snapshot is empty, and \<open>logOrSend\<close> there is the sink write alone,
  whatever the hook flag; the forwarding branch below is taken only from the proxy's
  \<open>assert\<close>.
\<close>

lemma logOrSend_forward:
  assumes "map_of (originalUnpatchedConsoleInstance s) method = Some (Func f)"
  shows "logOrSend env method True args s
           = (env f args,
              (writeToTarget method (formattedMessage args) s)
                \<lparr>calls := calls (writeToTarget method (formattedMessage args) s) @ [Call f args]\<rparr>)"
  using assms by (simp add: logOrSend_def invoke_def Let_def writeToTarget_frame)

lemma logOrSend_console_pair:
  "logOrSend env method hookMode args s = (r, s') \<Longrightarrow> console s' = console s"
  using logOrSend_console[of env "method" "hookMode" args s] by simp

lemma call_property_console:
  "call_property env p args s = Inr (r, s') \<Longrightarrow> console s' = console s"
  by (auto simp: call_property_def proxy_assert_def hook_wrapper_def invoke_def Let_def
        dest: logOrSend_console_pair
        split: property.splits if_splits prod.splits)

lemma this_console_call_console:
  "this_console_call env h p args s = Inr (r, s') \<Longrightarrow> console s' = console s"
  by (auto simp: this_console_call_def optional_call_def
        dest: call_property_console logOrSend_console_pair
        split: surface.splits if_splits)

lemma default_call_console:
  "default_call env h now stack hookMode p args s = Inr (r, s') \<Longrightarrow> console s' = console s"
  by (auto simp: default_call_def table_op_def assert_op_def trace_op_def time_op_def
        timeEnd_op_def clear_op_def invoke_def Let_def
        dest: logOrSend_console_pair dest!: this_console_call_console
        split: if_splits option.splits member.splits)

lemma console_call_console:
  "console_call env h now stack p args s = Inr (r, s') \<Longrightarrow> console s' = console s"
  by (auto simp: console_call_def dest: default_call_console call_property_console
        split: surface.splits)

lemma constructor_synthesized_snapshot:
  "console (constructor h ctx consoleInstance hookMode) = DefaultConsole k \<Longrightarrow>
   originalUnpatchedConsoleInstance (constructor h ctx consoleInstance hookMode) = []"
  by (simp add: constructor_def split: option.splits)

lemma patch_synthesized_snapshot:
  assumes "\<And>k. console s = DefaultConsole k \<Longrightarrow> originalUnpatchedConsoleInstance s = []"
    and "console (patch ctx consoleInstance hookMode s) = DefaultConsole k"
  shows "originalUnpatchedConsoleInstance (patch ctx consoleInstance hookMode s) = []"
  using assms by (auto simp: patch_def Let_def split: option.splits)

lemma console_call_synthesized_snapshot:
  assumes "\<And>k. console s = DefaultConsole k \<Longrightarrow> originalUnpatchedConsoleInstance s = []"
    and "console_call env h now stack p args s = Inr (r, s')"
    and "console s' = DefaultConsole k"
  shows "originalUnpatchedConsoleInstance s' = []"
  using assms console_call_console[OF assms(2)] console_call_snapshot[OF assms(2)] by simp

lemma synthesized_no_forwarding:
  assumes "originalUnpatchedConsoleInstance s = []"
  shows "logOrSend env method hookMode args s
           = (JUndefined, writeToTarget method (formattedMessage args) s)"
  using assms by (simp add: logOrSend_def Let_def writeToTarget_frame)

section \<open>The capability check\<close>




section \<open>\<open>assert\<close> of the synthesized console\<close>

lemma assert_true_silent:
  "truthy condition \<Longrightarrow> assert_op env hookMode condition data s = (JUndefined, s)"
  by (simp add: assert_op_def)

lemma find_first_split:
  "find_first pat s = Some (pre, post) \<Longrightarrow> s = pre @ pat @ post"
proof (induction s arbitrary: pre)
  case Nil
  then show ?case by (simp split: if_splits)
next
  case (Cons c cs)
  show ?case
  proof (cases "take (length pat) (c # cs) = pat")
    case True
    with Cons.prems have "pre = []" "post = drop (length pat) (c # cs)" by simp_all
    with True show ?thesis by (metis append_Nil append_take_drop_id)
  next
    case False
    with Cons.prems obtain b where "find_first pat cs = Some (b, post)" "pre = c # b"
      by (auto split: option.splits)
    with Cons.IH[of b] show ?thesis by simp
  qed
qed

lemma get_substitution_plain:
  "CHR ''$'' \<notin> set repl \<Longrightarrow> get_substitution matched pre post repl = repl"
  by (induction matched pre post repl rule: get_substitution.induct) auto

lemma assert_message_placeholder:
  assumes "find_first ''%o'' formatStr = Some (pre, post)"
    and "JSON_stringify obj = Some j"
    and "CHR ''$'' \<notin> set j"
  shows "assert_message (JStr formatStr # obj # rest) = ''Assertion failed: '' @ pre @ j @ post"
  using assms
  by (simp add: assert_message_def nth_arg_def str_includes_def replace_first_def JSON_value_def
        get_substitution_plain)

lemma assert_message_joined:
  assumes "\<not> (typeof_string (nth_arg data 0) \<and> str_includes (toString (nth_arg data 0)) ''%o'')"
  shows "assert_message data
           = ''Assertion failed: '' @
             join '' '' (toString_elems
               (map (\<lambda>arg. if typeof_object arg then JSON_value arg else arg) data))"
  using assms by (auto simp: assert_message_def)

text \<open>
  C4 at \<open>assert(false, '%o', {cost: '$$5'})\<close>: the JSON text of the object is
  \<open>{"cost":"$$5"}\<close>, but \<open>replace\<close> reads \<open>$$\<close> in its replacement as one dollar sign,
  and the line written is \<open>LOG: Assertion failed: {"cost":"$5"}\<close>, which does not
  contain the JSON text.
\<close>

theorem assert_dollar_pattern:
  "console_call silent bare_heap 0 None ''assert''
       [JBool False, JStr ''%o'', JObj [(''cost'', JStr ''$$5'')]]
       (constructor bare_heap None None False)
     = Inr (JUndefined,
            (constructor bare_heap None None False)
              \<lparr>context' := \<lparr>stdout = Accum (''LOG: Assertion failed: {\"cost\":\"$5\"}'' @ [CHR 0x0A]),
                            stderr = Accum []\<rparr>\<rparr>)
   \<and> JSON_stringify (JObj [(''cost'', JStr ''$$5'')]) = Some ''{\"cost\":\"$$5\"}''
   \<and> \<not> str_includes ''LOG: Assertion failed: {\"cost\":\"$5\"}'' ''{\"cost\":\"$$5\"}''"
  by (simp add: console_call_def default_call_def assert_op_def assert_message_def plain_methods_def
        constructor_def nth_arg_def str_includes_def replace_first_def
        logOrSend_def writeToTarget_def is_error_method_def Let_def formattedMessage_def
        trim_def is_ws_def JSON_value_def json_quote_def json_escape_def)

end
